theory Spec2Isabelle
  imports Complex_Main "HOL-Library.Sublist"
begin

section \<open>Python values\<close>

text \<open>
  A Python \<open>str\<close> is a sequence of Unicode code points: slicing and \<open>upper\<close> work on code
  points, not on bytes. String literals of the source are written \<open>str ''...''\<close>; the
  characters beyond ASCII are given by their code points
  (8211 en dash, 8212 em dash, 8226 bullet, 10003 check mark, 10007 ballot x).
\<close>

type_synonym pystr = "nat list"

definition str :: "string \<Rightarrow> pystr" where
  "str s = map of_char s"

definition nl :: pystr where
  "nl = [10]"

text \<open>
  The values \<open>json.loads\<close> can return. A float is a finite number, an infinity or NaN; the
  program only asks whether it is zero. A dict is kept as its items in insertion order.
\<close>

datatype pyfloat = Finite rat | PosInf | NegInf | NaN

datatype pyval =
    PNone
  | PBool bool
  | PInt int
  | PFloat pyfloat
  | PStr pystr
  | PList "pyval list"
  | PDict "(pystr \<times> pyval) list"

text \<open>Truth value testing, as \<open>if x:\<close> and \<open>not x\<close> do it.\<close>

fun truthy :: "pyval \<Rightarrow> bool" where
  "truthy PNone = False"
| "truthy (PBool b) = b"
| "truthy (PInt i) = (i \<noteq> 0)"
| "truthy (PFloat f) = (f \<noteq> Finite 0)"
| "truthy (PStr s) = (s \<noteq> [])"
| "truthy (PList xs) = (xs \<noteq> [])"
| "truthy (PDict kvs) = (kvs \<noteq> [])"

text \<open>
  Exceptions: the ones the program's own operations raise on a value of the wrong type,
  and \<open>Raised\<close> for one that comes from outside the source file (reading and parsing the
  request, the document library).
\<close>

datatype exn =
    No_attribute pyval string
  | Not_iterable pyval
  | Bad_subscript pyval
  | Raised pystr

definition bind :: "exn + 'a \<Rightarrow> ('a \<Rightarrow> exn + 'b) \<Rightarrow> exn + 'b" where
  "bind m f = (case m of Inl e \<Rightarrow> Inl e | Inr x \<Rightarrow> f x)"

text \<open>\<open>d.get(key, default)\<close>: only a dict has the method.\<close>

definition get_or :: "(pystr \<times> pyval) list \<Rightarrow> pystr \<Rightarrow> pyval \<Rightarrow> pyval" where
  "get_or kvs k d = (case map_of kvs k of Some v \<Rightarrow> v | None \<Rightarrow> d)"

fun py_get :: "pyval \<Rightarrow> pystr \<Rightarrow> pyval \<Rightarrow> exn + pyval" where
  "py_get (PDict kvs) k d = Inr (get_or kvs k d)"
| "py_get v k d = Inl (No_attribute v ''get'')"

text \<open>\<open>for x in v\<close>: a list gives its items, a string its characters, a dict its keys.\<close>

fun py_iter :: "pyval \<Rightarrow> exn + pyval list" where
  "py_iter (PList xs) = Inr xs"
| "py_iter (PStr s) = Inr (map (\<lambda>c. PStr [c]) s)"
| "py_iter (PDict kvs) = Inr (map (\<lambda>kv. PStr (fst kv)) kvs)"
| "py_iter v = Inl (Not_iterable v)"

text \<open>\<open>v[:8]\<close>: strings and lists are sliced, everything else raises.\<close>

fun py_slice8 :: "pyval \<Rightarrow> exn + pyval" where
  "py_slice8 (PStr s) = Inr (PStr (take 8 s))"
| "py_slice8 (PList xs) = Inr (PList (take 8 xs))"
| "py_slice8 v = Inl (Bad_subscript v)"

text \<open>Decimal digits of an integer, as \<open>str\<close> prints them.\<close>

fun str_nat :: "nat \<Rightarrow> pystr" where
  "str_nat n = (if n < 10 then [48 + n] else str_nat (n div 10) @ [48 + n mod 10])"

declare str_nat.simps [simp del]

definition str_int :: "int \<Rightarrow> pystr" where
  "str_int i = (if i < 0 then 45 # str_nat (nat (- i)) else str_nat (nat i))"

section \<open>The document library's data\<close>

text \<open>
  The flow elements, styles and canvas operations of the document library are data here:
  the program constructs them and hands them to the library. What the library itself
  does, when a paragraph is constructed and when the document is built, is taken from the
  runtime below.
\<close>

datatype color = HexColor string | Black

datatype style_attr =
    FontSize nat
  | TextColor color
  | SpaceAfter nat
  | SpaceBefore nat
  | Alignment nat
  | FontName string
  | Leading nat

datatype paragraph_style = ParagraphStyle string string "style_attr list"

text \<open>A length is a number of points or a multiple of \<open>inch\<close>, as the source writes it.\<close>

datatype dim = Pt rat | Inch rat

type_synonym cell = "int \<times> int"

datatype style_cmd =
    FONTNAME cell cell string
  | FONTSIZE cell cell nat
  | BOTTOMPADDING cell cell nat
  | TOPPADDING cell cell nat
  | TEXTCOLOR cell cell color
  | BACKGROUND cell cell color
  | BOX cell cell nat color
  | ALIGN cell cell string

datatype flowable =
    Paragraph pyval paragraph_style
  | Spacer dim dim
  | Table "pyval list list" "dim list" "style_cmd list"

record gstate =
  strokeColor :: color
  lineWidth :: rat
  font :: "string \<times> nat"
  fillColor :: color

datatype draw_op =
    Line gstate rat rat rat rat
  | CentredString gstate rat rat pystr

record canvas =
  state :: gstate
  saved :: "gstate list"
  drawn :: "draw_op list"

definition saveState :: "canvas \<Rightarrow> canvas" where
  "saveState c = c\<lparr>saved := state c # saved c\<rparr>"

definition restoreState :: "canvas \<Rightarrow> canvas" where
  "restoreState c = (case saved c of [] \<Rightarrow> c | g # gs \<Rightarrow> c\<lparr>state := g, saved := gs\<rparr>)"

definition setStrokeColor :: "color \<Rightarrow> canvas \<Rightarrow> canvas" where
  "setStrokeColor col c = c\<lparr>state := (state c)\<lparr>strokeColor := col\<rparr>\<rparr>"

definition setLineWidth :: "rat \<Rightarrow> canvas \<Rightarrow> canvas" where
  "setLineWidth w c = c\<lparr>state := (state c)\<lparr>lineWidth := w\<rparr>\<rparr>"

definition setFont :: "string \<Rightarrow> nat \<Rightarrow> canvas \<Rightarrow> canvas" where
  "setFont psfontname sz c = c\<lparr>state := (state c)\<lparr>font := (psfontname, sz)\<rparr>\<rparr>"

definition setFillColor :: "color \<Rightarrow> canvas \<Rightarrow> canvas" where
  "setFillColor col c = c\<lparr>state := (state c)\<lparr>fillColor := col\<rparr>\<rparr>"

definition line :: "rat \<Rightarrow> rat \<Rightarrow> rat \<Rightarrow> rat \<Rightarrow> canvas \<Rightarrow> canvas" where
  "line x1 y1 x2 y2 c = c\<lparr>drawn := drawn c @ [Line (state c) x1 y1 x2 y2]\<rparr>"

definition drawCentredString :: "rat \<Rightarrow> rat \<Rightarrow> pystr \<Rightarrow> canvas \<Rightarrow> canvas" where
  "drawCentredString x y text c = c\<lparr>drawn := drawn c @ [CentredString (state c) x y text]\<rparr>"

definition letter :: "rat \<times> rat" where
  "letter = (612, 792)"

record doc_template =
  pagesize :: "rat \<times> rat"
  rightMargin :: nat
  leftMargin :: nat
  topMargin :: nat
  bottomMargin :: nat

text \<open>The document as a page drawer sees it: the template and the number of the page being drawn.\<close>

record doc_state = doc_template +
  page :: int

type_synonym drawer = "canvas \<Rightarrow> doc_state \<Rightarrow> canvas"

text \<open>What \<open>doc.build\<close> receives.\<close>

record build_request =
  doc :: doc_template
  flowables :: "flowable list"
  onFirstPage :: drawer
  onLaterPages :: drawer

section \<open>What the program takes from its runtime\<close>

text \<open>
  Not in the source file and taken as parameters: the upper-casing of a code point beyond
  ASCII (the Unicode tables), \<open>str\<close> of a float, list or dict, \<open>str\<close> of an exception,
  Base64 encoding, and the document library. The library parses the text of a
  \<open>Paragraph\<close> when the paragraph is constructed and raises on text it does not accept
  (malformed markup, a value that is not a string): \<open>para_error\<close> is the exception, if any.
  Its \<open>build\<close> paginates and serialises, may raise, and reads the wall clock of the run
  (it writes the creation date and a document id into the file): \<open>clock\<close> is that reading.
\<close>

record runtime =
  upper_ext :: "nat \<Rightarrow> pystr"
  str_ext :: "pyval \<Rightarrow> pystr"
  exc_str :: "exn \<Rightarrow> pystr"
  b64encode :: "nat list \<Rightarrow> pystr"
  para_error :: "pyval \<Rightarrow> exn option"
  clock :: nat
  build :: "nat \<Rightarrow> build_request \<Rightarrow> exn + nat list"

text \<open>\<open>str.upper\<close> maps each code point on its own; ASCII letters lose 32.\<close>

definition upper_cp :: "runtime \<Rightarrow> nat \<Rightarrow> pystr" where
  "upper_cp rt c =
     (if c < 128 then [if 97 \<le> c \<and> c \<le> 122 then c - 32 else c] else upper_ext rt c)"

definition upper :: "runtime \<Rightarrow> pystr \<Rightarrow> pystr" where
  "upper rt s = concat (map (upper_cp rt) s)"

fun py_upper :: "runtime \<Rightarrow> pyval \<Rightarrow> exn + pystr" where
  "py_upper rt (PStr s) = Inr (upper rt s)"
| "py_upper rt v = Inl (No_attribute v ''upper'')"

text \<open>A value inside an f-string.\<close>

fun py_str :: "runtime \<Rightarrow> pyval \<Rightarrow> pystr" where
  "py_str rt (PStr s) = s"
| "py_str rt PNone = str ''None''"
| "py_str rt (PBool b) = (if b then str ''True'' else str ''False'')"
| "py_str rt (PInt i) = str_int i"
| "py_str rt v = str_ext rt v"

section \<open>The footer\<close>

definition footer_text :: "runtime \<Rightarrow> pyval \<Rightarrow> int \<Rightarrow> pystr" where
  "footer_text rt assessment_id n =
     str ''Will I Hate This? '' @ [8212] @ str '' Founder'' @ [8211]
     @ str ''GTM Misery Risk Diagnostic | Assessment ID: '' @ py_str rt assessment_id
     @ str '' | Page '' @ str_int n"

definition create_footer_drawer :: "runtime \<Rightarrow> pyval \<Rightarrow> drawer" where
  "create_footer_drawer rt assessment_id = (\<lambda>canvas_obj doc.
     restoreState
       (drawCentredString (fst letter / 2) 35 (footer_text rt assessment_id (page doc))
       (setFillColor (HexColor ''#666666'')
       (setFont ''Helvetica'' 8
       (line 72 50 (fst letter - 72) 50
       (setLineWidth (1 / 2)
       (setStrokeColor (HexColor ''#2563eb'')
       (saveState canvas_obj))))))))"

section \<open>The elements of the report\<close>

definition title_style :: paragraph_style where
  "title_style = ParagraphStyle ''CustomTitle'' ''Heading1''
     [FontSize 18, TextColor (HexColor ''#1f2937''), SpaceAfter 6, Alignment 1]"

definition subtitle_style :: paragraph_style where
  "subtitle_style = ParagraphStyle ''SubtitleStyle'' ''Normal''
     [FontSize 10, TextColor (HexColor ''#6b7280''), Alignment 1, SpaceAfter 24]"

definition heading_style :: paragraph_style where
  "heading_style = ParagraphStyle ''CustomHeading'' ''Heading2''
     [FontSize 13, TextColor (HexColor ''#2563eb''), SpaceAfter 10, SpaceBefore 16,
      FontName ''Helvetica-Bold'']"

definition body_style :: paragraph_style where
  "body_style = ParagraphStyle ''BodyStyle'' ''Normal''
     [FontSize 10, TextColor (HexColor ''#374151''), SpaceAfter 8, Leading 14]"

definition final_warning :: paragraph_style where
  "final_warning = ParagraphStyle ''FinalWarning'' ''Normal''
     [FontSize 10, TextColor (HexColor ''#374151''), Alignment 1,
      FontName ''Helvetica-Bold'', SpaceAfter 12]"

text \<open>
  A paragraph of a fixed text of the source: these texts are plain or carry balanced
  \<open>b\<close> and \<open>i\<close> tags, and the library builds them without error.
\<close>

definition para :: "pystr \<Rightarrow> paragraph_style \<Rightarrow> flowable" where
  "para text style = Paragraph (PStr text) style"

text \<open>
  A paragraph whose text comes from the request: the constructor raises what the library
  raises for that text.
\<close>

definition new_paragraph :: "runtime \<Rightarrow> pyval \<Rightarrow> paragraph_style \<Rightarrow> exn + flowable" where
  "new_paragraph rt text style =
     (case para_error rt text of Some e \<Rightarrow> Inl e | None \<Rightarrow> Inr (Paragraph text style))"

definition header_elements :: "flowable list" where
  "header_elements =
     [para (str ''FOUNDER'' @ [8211] @ str ''GTM MISERY RISK DIAGNOSTIC'') title_style,
      para (str ''Will I Hate This?'') subtitle_style]"

definition metadata_table :: "pyval \<Rightarrow> pyval \<Rightarrow> flowable" where
  "metadata_table assessment_id timestamp = Table
     [[PStr (str ''Assessment ID:''), assessment_id],
      [PStr (str ''Generated:''), timestamp],
      [PStr (str ''Assessment Type:''),
       PStr (str ''Founder'' @ [8211] @ str ''GTM Misery Risk Classification'')],
      [PStr (str ''Classification Integrity:''), PStr (str ''Deterministic'')]]
     [Inch 2, Inch 4]
     [FONTNAME (0, 0) (0, -1) ''Helvetica-Bold'',
      FONTSIZE (0, 0) (-1, -1) 9,
      BOTTOMPADDING (0, 0) (-1, -1) 4,
      TEXTCOLOR (0, 0) (-1, -1) (HexColor ''#4b5563'')]"

definition disclaimer_text :: pystr where
  "disclaimer_text = nl
     @ str ''    <i>This assessment does not evaluate idea quality, market size, or likelihood of success. '' @ nl
     @ str ''    It evaluates the risk that executing the required GTM will conflict with the founder'' @ [39] @ str ''s '' @ nl
     @ str ''    working preferences.</i>'' @ nl
     @ str ''    ''"

definition risk_colors :: "(pystr \<times> color) list" where
  "risk_colors =
     [(str ''LOW'', HexColor ''#10b981''),
      (str ''MODERATE'', HexColor ''#f59e0b''),
      (str ''HIGH'', HexColor ''#ef4444''),
      (str ''SEVERE'', HexColor ''#991b1b'')]"

definition risk_color :: "runtime \<Rightarrow> pyval \<Rightarrow> exn + color" where
  "risk_color rt risk_level =
     bind (py_upper rt risk_level) (\<lambda>key.
       Inr (case map_of risk_colors key of Some c \<Rightarrow> c | None \<Rightarrow> Black))"

definition verdict_table :: "runtime \<Rightarrow> pyval \<Rightarrow> exn + flowable" where
  "verdict_table rt risk_level =
     bind (risk_color rt risk_level) (\<lambda>risk_color.
     bind (py_upper rt risk_level) (\<lambda>label.
       Inr (Table
         [[PStr (str ''Misery Risk: '' @ label)],
          [PStr (str ''Expected mismatch between GTM requirements and founder energy profile.'')]]
         [Inch 6]
         [BACKGROUND (0, 0) (-1, -1) (HexColor ''#f9fafb''),
          BOX (0, 0) (-1, -1) 2 risk_color,
          FONTNAME (0, 0) (0, 0) ''Helvetica-Bold'',
          FONTSIZE (0, 0) (0, 0) 14,
          FONTSIZE (0, 1) (0, 1) 10,
          TEXTCOLOR (0, 0) (0, 0) risk_color,
          ALIGN (0, 0) (-1, -1) ''CENTER'',
          TOPPADDING (0, 0) (-1, -1) 12,
          BOTTOMPADDING (0, 0) (-1, -1) 12])))"

definition regret_text :: pystr where
  "regret_text = nl
     @ str ''    This is the point at which founders with similar profiles historically report '' @ nl
     @ str ''    avoidance, burnout, or abandonment.'' @ nl
     @ str ''    ''"

definition regret_elements :: "runtime \<Rightarrow> pyval \<Rightarrow> exn + flowable list" where
  "regret_elements rt time_to_regret =
     bind (new_paragraph rt (PStr (str ''Time-to-Regret: '' @ py_str rt time_to_regret)) heading_style)
       (\<lambda>heading.
       Inr [heading,
            para regret_text body_style,
            Spacer (Pt 1) (Inch (2 / 10))])"

text \<open>
  One paragraph per item, the item after a bullet; the loop ends at the first item whose
  paragraph raises.
\<close>

fun bullets :: "runtime \<Rightarrow> pyval list \<Rightarrow> exn + flowable list" where
  "bullets rt [] = Inr []"
| "bullets rt (item # items) =
     bind (new_paragraph rt (PStr ([8226, 32] @ py_str rt item)) body_style) (\<lambda>p.
     bind (bullets rt items) (\<lambda>ps. Inr (p # ps)))"

definition gtm_elements :: "runtime \<Rightarrow> pyval \<Rightarrow> pyval \<Rightarrow> exn + flowable list" where
  "gtm_elements rt gtm_shape verdict =
     bind (new_paragraph rt (PStr (str ''<b>'' @ py_str rt gtm_shape @ str ''</b>'')) body_style)
       (\<lambda>shape.
     bind (py_get verdict (str ''gtm_description'')
             (PStr (str ''Classification description not available.''))) (\<lambda>gtm_description.
     bind (new_paragraph rt gtm_description body_style) (\<lambda>description.
     bind (py_get verdict (str ''pressure_flags'') (PList [])) (\<lambda>pressure_flags.
     bind (if truthy pressure_flags
           then bind (py_iter pressure_flags) (\<lambda>items.
                bind (bullets rt items) (\<lambda>ps. Inr
                  ([Spacer (Pt 1) (Inch (1 / 10)),
                    para (str ''<b>Active Pressure Flags:</b>'') body_style]
                   @ ps)))
           else Inr []) (\<lambda>flag_elements.
       Inr ([para (str ''PRIMARY GTM SHAPE'') heading_style,
             shape,
             description]
            @ flag_elements
            @ [Spacer (Pt 1) (Inch (2 / 10))]))))))"

definition founder_elements :: "runtime \<Rightarrow> pyval \<Rightarrow> exn + flowable list" where
  "founder_elements rt founder_profile =
     bind (py_get founder_profile (str ''core_drivers'') (PList [])) (\<lambda>drivers.
     bind (py_get founder_profile (str ''core_drains'') (PList [])) (\<lambda>drains.
     bind (if truthy drivers
           then bind (py_iter drivers) (\<lambda>items.
                bind (bullets rt items) (\<lambda>ps. Inr
                  (para (str ''<b>Core Drivers:</b>'') body_style # ps)))
           else Inr []) (\<lambda>driver_elements.
     bind (if truthy drains
           then bind (py_iter drains) (\<lambda>items.
                bind (bullets rt items) (\<lambda>ps. Inr
                  ([Spacer (Pt 1) (Inch (1 / 10)),
                    para (str ''<b>Core Drains:</b>'') body_style]
                   @ ps)))
           else Inr []) (\<lambda>drain_elements.
       Inr ([para (str ''FOUNDER ENERGY PROFILE'') heading_style]
            @ driver_elements @ drain_elements
            @ [Spacer (Pt 1) (Inch (2 / 10))])))))"

text \<open>
  The mismatch lines: each flag after a ballot x, each followed by a small spacer; the
  loop ends at the first flag whose paragraph raises.
\<close>

fun flag_lines :: "runtime \<Rightarrow> pyval list \<Rightarrow> exn + flowable list" where
  "flag_lines rt [] = Inr []"
| "flag_lines rt (flag # flags) =
     bind (new_paragraph rt (PStr ([10007, 32] @ py_str rt flag)) body_style) (\<lambda>flag_para.
     bind (flag_lines rt flags) (\<lambda>rest.
       Inr (flag_para # Spacer (Pt 1) (Inch (5 / 100)) # rest)))"

definition mismatch_elements :: "runtime \<Rightarrow> pyval \<Rightarrow> exn + flowable list" where
  "mismatch_elements rt mismatch_flags =
     bind (if truthy mismatch_flags
           then bind (py_iter mismatch_flags) (\<lambda>items. flag_lines rt items)
           else Inr [para (str ''No critical mismatches detected.'') body_style]) (\<lambda>lines.
       Inr ([para (str ''MISMATCH FLAGS'') heading_style]
            @ lines
            @ [Spacer (Pt 1) (Inch (2 / 10))]))"

definition basis_elements :: "runtime \<Rightarrow> pyval \<Rightarrow> exn + flowable list" where
  "basis_elements rt verdict =
     bind (py_get verdict (str ''explanation'')
             (PStr (str ''Classification basis not available.''))) (\<lambda>explanation.
     bind (new_paragraph rt explanation body_style) (\<lambda>basis.
       Inr [para (str ''CLASSIFICATION BASIS'') heading_style,
            basis,
            Spacer (Pt 1) (Inch (2 / 10))]))"

definition does_not_say :: pystr where
  "does_not_say = nl
     @ str ''    This verdict does not say:'' @ nl
     @ str ''    '' @ [8226] @ str '' That the idea is bad'' @ nl
     @ str ''    '' @ [8226] @ str '' That the market is too small'' @ nl
     @ str ''    '' @ [8226] @ str '' That someone else could not succeed with this idea'' @ nl
     @ str ''    '' @ [8226] @ str '' That you should abandon the idea immediately'' @ nl
     @ str ''    '' @ nl
     @ str ''    It only states that this GTM path is statistically misaligned with how you work.'' @ nl
     @ str ''    ''"

definition immutable_text :: pystr where
  "immutable_text = nl
     @ str ''    <i>This report does not update. Re-running the assessment with different answers '' @ nl
     @ str ''    constitutes a different idea.</i>'' @ nl
     @ str ''    ''"

definition closing_elements :: "flowable list" where
  "closing_elements =
     [para (str ''WHAT THIS VERDICT DOES NOT SAY'') heading_style,
      para does_not_say body_style,
      Spacer (Pt 1) (Inch (3 / 10)),
      para (str ''Most founders ignore this signal.'') final_warning,
      para (str ''The cost is usually paid in time, not money.'') final_warning,
      Spacer (Pt 1) (Inch (2 / 10)),
      para immutable_text body_style]"

text \<open>
  The list \<open>elements\<close> that \<open>generate_verdict_pdf\<close> fills, section after section; an
  exception in any section ends the function. The sections are visited in the order of
  the source, so the exception that leaves is the first one the source raises.
\<close>

definition elements ::
  "runtime \<Rightarrow> pyval \<Rightarrow> pyval \<Rightarrow> pyval \<Rightarrow> pyval \<Rightarrow> pyval \<Rightarrow> pyval \<Rightarrow> pyval \<Rightarrow> pyval
   \<Rightarrow> exn + flowable list" where
  "elements rt assessment_id timestamp verdict gtm_shape founder_profile mismatch_flags
     time_to_regret risk_level =
     bind (verdict_table rt risk_level) (\<lambda>verdict_table.
     bind (regret_elements rt time_to_regret) (\<lambda>regret.
     bind (gtm_elements rt gtm_shape verdict) (\<lambda>gtm.
     bind (founder_elements rt founder_profile) (\<lambda>founder.
     bind (mismatch_elements rt mismatch_flags) (\<lambda>mismatch.
     bind (basis_elements rt verdict) (\<lambda>basis.
       Inr (header_elements
            @ [metadata_table assessment_id timestamp, Spacer (Pt 1) (Inch (15 / 100)),
               para disclaimer_text body_style, Spacer (Pt 1) (Inch (25 / 100)),
               para (str ''VERDICT'') heading_style,
               verdict_table, Spacer (Pt 1) (Inch (2 / 10))]
            @ regret
            @ gtm @ founder @ mismatch @ basis
            @ closing_elements)))))))"

definition simple_doc_template :: doc_template where
  "simple_doc_template =
     \<lparr>pagesize = letter, rightMargin = 72, leftMargin = 72, topMargin = 72, bottomMargin = 60\<rparr>"

definition build_call ::
  "runtime \<Rightarrow> pyval \<Rightarrow> flowable list \<Rightarrow> build_request" where
  "build_call rt assessment_id els =
     (let footer_func = create_footer_drawer rt assessment_id
      in \<lparr>doc = simple_doc_template, flowables = els,
          onFirstPage = footer_func, onLaterPages = footer_func\<rparr>)"

definition generate_verdict_pdf ::
  "runtime \<Rightarrow> pyval \<Rightarrow> pyval \<Rightarrow> pyval \<Rightarrow> pyval \<Rightarrow> pyval \<Rightarrow> pyval \<Rightarrow> pyval \<Rightarrow> pyval
   \<Rightarrow> exn + pystr" where
  "generate_verdict_pdf rt assessment_id timestamp verdict gtm_shape founder_profile
     mismatch_flags time_to_regret risk_level =
     bind (elements rt assessment_id timestamp verdict gtm_shape founder_profile
             mismatch_flags time_to_regret risk_level) (\<lambda>els.
     bind (build rt (clock rt) (build_call rt assessment_id els)) (\<lambda>pdf_bytes.
       Inr (b64encode rt pdf_bytes)))"

section \<open>The request handler\<close>

text \<open>
  What \<open>do_POST\<close> does, in order: status lines, headers, bodies (the object given to
  \<open>json.dumps\<close>) and printed log lines.
\<close>

datatype event =
    Send_response nat
  | Send_header string string
  | End_headers
  | Wfile_write pyval
  | Print pystr

definition json_headers :: "event list" where
  "json_headers =
     [Send_header ''Content-Type'' ''application/json'',
      Send_header ''Access-Control-Allow-Origin'' ''*'',
      End_headers]"

text \<open>
  The body of the \<open>try\<close>: the events so far, and the exception if one was raised.
  \<open>loaded\<close> is the outcome of reading the body and \<open>json.loads\<close>; \<open>now\<close> is the formatted
  UTC time.
\<close>

definition raise_after :: "event list \<Rightarrow> exn + 'a \<Rightarrow> ('a \<Rightarrow> event list \<times> exn option)
    \<Rightarrow> event list \<times> exn option" where
  "raise_after evs m f = (case m of Inl e \<Rightarrow> (evs, Some e) | Inr x \<Rightarrow> f x)"

definition do_POST_try :: "runtime \<Rightarrow> pystr \<Rightarrow> exn + pyval \<Rightarrow> event list \<times> exn option" where
  "do_POST_try rt now loaded =
     raise_after [] loaded (\<lambda>data.
     raise_after [] (py_get data (str ''assessment_id'') PNone) (\<lambda>assessment_id.
       if \<not> truthy assessment_id then
         (Send_response 400 # json_headers
          @ [Wfile_write (PDict [(str ''error'', PStr (str ''assessment_id is required''))])],
          None)
       else
     raise_after [] (py_get data (str ''verdict'') (PDict [])) (\<lambda>verdict.
     raise_after [] (py_get data (str ''gtm_shape'') (PStr (str ''Not Classified''))) (\<lambda>gtm_shape.
     raise_after [] (py_get data (str ''founder_profile'') (PDict [])) (\<lambda>founder_profile.
     raise_after [] (py_get data (str ''mismatch_flags'') (PList [])) (\<lambda>mismatch_flags.
     raise_after [] (py_get data (str ''time_to_regret'') (PStr (str ''Unknown''))) (\<lambda>time_to_regret.
     raise_after [] (py_get data (str ''risk_level'') (PStr (str ''UNKNOWN''))) (\<lambda>risk_level.
       if \<not> truthy verdict \<or> \<not> truthy gtm_shape then
         (Send_response 400 # json_headers
          @ [Wfile_write (PDict [(str ''error'',
                PStr (str ''Verdict data missing. Cannot generate report.''))]),
             Print ([10007] @ str '' PDF generation failed for assessment ''
                    @ py_str rt assessment_id @ str '': Missing verdict data'')],
          None)
       else
     raise_after [] (generate_verdict_pdf rt assessment_id (PStr now) verdict gtm_shape
                       founder_profile mismatch_flags time_to_regret risk_level)
       (\<lambda>pdf_content_base64.
     raise_after (Send_response 200 # json_headers) (py_slice8 assessment_id) (\<lambda>id8.
       (Send_response 200 # json_headers
        @ [Wfile_write (PDict
             [(str ''success'', PBool True),
              (str ''pdfAttachmentData'', PDict
                 [(str ''filename'',
                   PStr (str ''WHT-Diagnostic-Report-'' @ py_str rt id8 @ str ''.pdf'')),
                  (str ''content'', PStr pdf_content_base64)])]),
           Print ([10003] @ str '' PDF generated successfully for assessment: ''
                  @ py_str rt assessment_id)],
        None)))))))))))"

definition do_POST :: "runtime \<Rightarrow> pystr \<Rightarrow> exn + pyval \<Rightarrow> event list" where
  "do_POST rt now loaded =
     (case do_POST_try rt now loaded of
        (evs, None) \<Rightarrow> evs
      | (evs, Some e) \<Rightarrow>
          evs @ Send_response 500 # json_headers
          @ [Wfile_write (PDict [(str ''error'',
                PStr (str ''PDF Generation Failed: '' @ exc_str rt e))]),
             Print ([10007] @ str '' PDF generation error: '' @ exc_str rt e)])"

section \<open>A runtime for concrete evaluation, and observations on elements\<close>

text \<open>Base64 (RFC 4648) of a list of bytes.\<close>

definition b64_char :: "nat \<Rightarrow> nat" where
  "b64_char n =
     (if n < 26 then 65 + n
      else if n < 52 then 97 + (n - 26)
      else if n < 62 then 48 + (n - 52)
      else if n = 62 then 43 else 47)"

fun base64 :: "nat list \<Rightarrow> pystr" where
  "base64 (a # b # c # bs) =
     [b64_char (a div 4), b64_char ((a mod 4) * 16 + b div 16),
      b64_char ((b mod 16) * 4 + c div 64), b64_char (c mod 64)] @ base64 bs"
| "base64 [a, b] =
     [b64_char (a div 4), b64_char ((a mod 4) * 16 + b div 16), b64_char ((b mod 16) * 4), 61]"
| "base64 [a] = [b64_char (a div 4), b64_char ((a mod 4) * 16), 61, 61]"
| "base64 [] = []"

text \<open>
  A stand-in for the library's markup parser: a value that is not a string raises, and so
  does a string with an odd number of \<open><\<close> signs, such as \<open><i>\<close> or \<open><b>F2\<close>.
\<close>

definition sample_para_error :: "pyval \<Rightarrow> exn option" where
  "sample_para_error v =
     (case v of
        PStr s \<Rightarrow> (if even (length (filter (\<lambda>c. c = 60) s)) then None
                   else Some (Raised (str ''ValueError'')))
      | _ \<Rightarrow> Some (Raised (str ''AttributeError'')))"

text \<open>
  A sample runtime: code points beyond ASCII are left as they are, and the library
  returns the five bytes \<open>%PDF-\<close> whatever the clock, whose Base64 text is \<open>JVBERi0=\<close>.
\<close>

definition sample_runtime :: runtime where
  "sample_runtime =
     \<lparr>upper_ext = (\<lambda>c. [c]),
      str_ext = (\<lambda>v. str ''<object>''),
      exc_str = (\<lambda>e. str ''exception''),
      b64encode = base64,
      para_error = sample_para_error,
      clock = 0,
      build = (\<lambda>t rq. Inr [37, 80, 68, 70, 45])\<rparr>"


text \<open>The lines of the mismatch section and the bullets of a list when no paragraph raises.\<close>

definition plain_flag_lines :: "runtime \<Rightarrow> pyval list \<Rightarrow> flowable list" where
  "plain_flag_lines rt items = concat (map (\<lambda>flag.
     [Paragraph (PStr ([10007, 32] @ py_str rt flag)) body_style,
      Spacer (Pt 1) (Inch (5 / 100))]) items)"

definition plain_bullets :: "runtime \<Rightarrow> pyval list \<Rightarrow> flowable list" where
  "plain_bullets rt items =
     map (\<lambda>item. Paragraph (PStr ([8226, 32] @ py_str rt item)) body_style) items"

text \<open>The items of \<open>pressure_flags\<close> when it is a list, none when it is absent.\<close>

definition pressure_items :: "(pystr \<times> pyval) list \<Rightarrow> pyval list" where
  "pressure_items v =
     (case map_of v (str ''pressure_flags'') of Some (PList xs) \<Rightarrow> xs | _ \<Rightarrow> [])"

text \<open>The colours of the outline commands of a table, and of the text of its cell (0, 0).\<close>

fun box_colors :: "flowable \<Rightarrow> color list" where
  "box_colors (Table rows widths cmds) =
     concat (map (\<lambda>cmd. case cmd of BOX a b w c \<Rightarrow> [c] | _ \<Rightarrow> []) cmds)"
| "box_colors f = []"

fun first_cell_text_colors :: "flowable \<Rightarrow> color list" where
  "first_cell_text_colors (Table rows widths cmds) =
     concat (map (\<lambda>cmd. case cmd of TEXTCOLOR a b c \<Rightarrow> (if a = (0, 0) \<and> b = (0, 0) then [c] else [])
                                   | _ \<Rightarrow> []) cmds)"
| "first_cell_text_colors f = []"

fun table_rows :: "flowable \<Rightarrow> pyval list list" where
  "table_rows (Table rows widths cmds) = rows"
| "table_rows f = []"

text \<open>The texts of the paragraphs of a list of elements, in order.\<close>

fun paragraph_texts :: "flowable list \<Rightarrow> pyval list" where
  "paragraph_texts [] = []"
| "paragraph_texts (Paragraph t st # fs) = t # paragraph_texts fs"
| "paragraph_texts (f # fs) = paragraph_texts fs"


text \<open>The bodies written to the response, in order.\<close>

fun written :: "event list \<Rightarrow> pyval list" where
  "written [] = []"
| "written (Wfile_write b # evs) = b # written evs"
| "written (ev # evs) = written evs"


text \<open>The severity table of the specification, read as a conditional on the key.\<close>

definition severity :: "pystr \<Rightarrow> color" where
  "severity key =
     (if key = str ''LOW'' then HexColor ''#10b981''
      else if key = str ''MODERATE'' then HexColor ''#f59e0b''
      else if key = str ''HIGH'' then HexColor ''#ef4444''
      else if key = str ''SEVERE'' then HexColor ''#991b1b''
      else Black)"




text \<open>
  The library accepts the text of every paragraph that the composer builds from
  \<open>time_to_regret\<close>, \<open>gtm_shape\<close> and \<open>verdict\<close>: the heading, the bold shape, the
  description and the basis shown (the placeholder when the field is absent) and the
  pressure-flag bullets.
\<close>

definition library_accepts :: "runtime \<Rightarrow> (pystr \<times> pyval) list \<Rightarrow> pyval \<Rightarrow> pyval \<Rightarrow> bool" where
  "library_accepts rt v gtm_shape time_to_regret \<longleftrightarrow>
     para_error rt (PStr (str ''Time-to-Regret: '' @ py_str rt time_to_regret)) = None
     \<and> para_error rt (PStr (str ''<b>'' @ py_str rt gtm_shape @ str ''</b>'')) = None
     \<and> para_error rt (get_or v (str ''gtm_description'')
                        (PStr (str ''Classification description not available.''))) = None
     \<and> (\<forall>x \<in> set (pressure_items v). para_error rt (PStr ([8226, 32] @ py_str rt x)) = None)
     \<and> para_error rt (get_or v (str ''explanation'')
                        (PStr (str ''Classification basis not available.''))) = None"

section \<open>Basic facts\<close>

lemma bind_simps [simp]: "bind (Inl e) f = Inl e" "bind (Inr x) f = f x"
  by (simp_all add: bind_def)

lemma raise_after_simps [simp]:
  "raise_after evs (Inl e) f = (evs, Some e)" "raise_after evs (Inr x) f = f x"
  by (simp_all add: raise_after_def)

lemma do_POST_falsy_id:
  assumes "\<not> truthy (get_or kvs (str ''assessment_id'') PNone)"
  shows "do_POST rt now (Inr (PDict kvs)) =
     Send_response 400 # json_headers
     @ [Wfile_write (PDict [(str ''error'', PStr (str ''assessment_id is required''))])]"
  using assms by (simp add: do_POST_def do_POST_try_def)

lemma do_POST_truthy_id:
  assumes "truthy (get_or kvs (str ''assessment_id'') PNone)"
  shows "do_POST rt now (Inr (PDict kvs)) =
     (let assessment_id = get_or kvs (str ''assessment_id'') PNone;
          verdict = get_or kvs (str ''verdict'') (PDict []);
          gtm_shape = get_or kvs (str ''gtm_shape'') (PStr (str ''Not Classified''))
      in if \<not> truthy verdict \<or> \<not> truthy gtm_shape then
           Send_response 400 # json_headers
           @ [Wfile_write (PDict [(str ''error'',
                 PStr (str ''Verdict data missing. Cannot generate report.''))]),
              Print ([10007] @ str '' PDF generation failed for assessment ''
                     @ py_str rt assessment_id @ str '': Missing verdict data'')]
         else
           (case generate_verdict_pdf rt assessment_id (PStr now) verdict gtm_shape
                   (get_or kvs (str ''founder_profile'') (PDict []))
                   (get_or kvs (str ''mismatch_flags'') (PList []))
                   (get_or kvs (str ''time_to_regret'') (PStr (str ''Unknown'')))
                   (get_or kvs (str ''risk_level'') (PStr (str ''UNKNOWN''))) of
              Inl e \<Rightarrow>
                Send_response 500 # json_headers
                @ [Wfile_write (PDict [(str ''error'',
                      PStr (str ''PDF Generation Failed: '' @ exc_str rt e))]),
                   Print ([10007] @ str '' PDF generation error: '' @ exc_str rt e)]
            | Inr content \<Rightarrow>
                (case py_slice8 assessment_id of
                   Inl e \<Rightarrow>
                     Send_response 200 # json_headers
                     @ Send_response 500 # json_headers
                     @ [Wfile_write (PDict [(str ''error'',
                           PStr (str ''PDF Generation Failed: '' @ exc_str rt e))]),
                        Print ([10007] @ str '' PDF generation error: '' @ exc_str rt e)]
                 | Inr id8 \<Rightarrow>
                     Send_response 200 # json_headers
                     @ [Wfile_write (PDict
                          [(str ''success'', PBool True),
                           (str ''pdfAttachmentData'', PDict
                              [(str ''filename'',
                                PStr (str ''WHT-Diagnostic-Report-'' @ py_str rt id8 @ str ''.pdf'')),
                               (str ''content'', PStr content)])]),
                        Print ([10003] @ str '' PDF generated successfully for assessment: ''
                               @ py_str rt assessment_id)])))"
  using assms by (simp add: do_POST_def do_POST_try_def Let_def split: sum.splits)

lemmas eval_defs = do_POST_def do_POST_try_def str_def generate_verdict_pdf_def
  sample_runtime_def elements_def verdict_table_def risk_color_def gtm_elements_def
  founder_elements_def mismatch_elements_def basis_elements_def upper_def upper_cp_def
  json_headers_def get_or_def build_call_def regret_elements_def new_paragraph_def
  sample_para_error_def b64_char_def




section \<open>The request handler: validation\<close>

text \<open>
  C5. When the request object has no \<open>assessment_id\<close>, or has one that is empty (or
  falsy in any other way), the handler answers with status 400 and the body
  \<open>{"error": "assessment_id is required"}\<close> and does nothing else: the events do not
  depend on the runtime, so nothing is rendered, and no \<open>pdfAttachmentData\<close> is written.
\<close>

theorem assessment_id_required:
  assumes "map_of kvs (str ''assessment_id'') = None
           \<or> (\<exists>v. map_of kvs (str ''assessment_id'') = Some v \<and> \<not> truthy v)"
  shows "do_POST rt now (Inr (PDict kvs)) =
     [Send_response 400,
      Send_header ''Content-Type'' ''application/json'',
      Send_header ''Access-Control-Allow-Origin'' ''*'',
      End_headers,
      Wfile_write (PDict [(str ''error'', PStr (str ''assessment_id is required''))])]"
proof -
  from assms have "\<not> truthy (get_or kvs (str ''assessment_id'') PNone)"
    by (auto simp: get_or_def)
  then show ?thesis
    by (simp add: do_POST_falsy_id json_headers_def)
qed

theorem assessment_id_required_witness:
  "do_POST sample_runtime (str ''2026-01-01 00:00:00 UTC'')
      (Inr (PDict [(str ''verdict'', PDict [(str ''explanation'', PStr (str ''E''))]),
                   (str ''gtm_shape'', PStr (str ''Shape-A''))])) =
     [Send_response 400,
      Send_header ''Content-Type'' ''application/json'',
      Send_header ''Access-Control-Allow-Origin'' ''*'',
      End_headers,
      Wfile_write (PDict [(str ''error'', PStr (str ''assessment_id is required''))])]
   \<and> do_POST sample_runtime (str ''2026-01-01 00:00:00 UTC'')
      (Inr (PDict [(str ''assessment_id'', PStr []),
                   (str ''verdict'', PDict [(str ''explanation'', PStr (str ''E''))]),
                   (str ''gtm_shape'', PStr (str ''Shape-A''))])) =
     [Send_response 400,
      Send_header ''Content-Type'' ''application/json'',
      Send_header ''Access-Control-Allow-Origin'' ''*'',
      End_headers,
      Wfile_write (PDict [(str ''error'', PStr (str ''assessment_id is required''))])]"
proof -
  have a: "map_of [(str ''verdict'', PDict [(str ''explanation'', PStr (str ''E''))]),
                   (str ''gtm_shape'', PStr (str ''Shape-A''))] (str ''assessment_id'') = None"
    by (simp add: str_def)
  have b: "\<exists>v. map_of [(str ''assessment_id'', PStr []),
                   (str ''verdict'', PDict [(str ''explanation'', PStr (str ''E''))]),
                   (str ''gtm_shape'', PStr (str ''Shape-A''))] (str ''assessment_id'') = Some v
              \<and> \<not> truthy v"
    by (simp add: str_def)
  show ?thesis
    using assessment_id_required [OF disjI1, OF a] assessment_id_required [OF disjI2, OF b]
    by blast
qed

lemma error_body_differs:
  "str ''PDF Generation Failed: '' @ m \<noteq> str ''Verdict data missing. Cannot generate report.''"
  by (simp add: str_def)




section \<open>The request handler: the file name\<close>

lemma success_body_shape:
  assumes id: "map_of kvs (str ''assessment_id'') = Some (PStr s)"
    and body: "body \<in> set (written (do_POST rt now (Inr (PDict kvs))))"
    and success: "py_get body (str ''success'') PNone = Inr (PBool True)"
  shows "\<exists>content. body = PDict
           [(str ''success'', PBool True),
            (str ''pdfAttachmentData'', PDict
               [(str ''filename'',
                 PStr (str ''WHT-Diagnostic-Report-'' @ take 8 s @ str ''.pdf'')),
                (str ''content'', PStr content)])]"
proof (cases "s = []")
  case True
  with id have "\<not> truthy (get_or kvs (str ''assessment_id'') PNone)"
    by (simp add: get_or_def)
  from do_POST_falsy_id [OF this] body success show ?thesis
    by (simp add: json_headers_def get_or_def str_def)
next
  case False
  with id have t: "truthy (get_or kvs (str ''assessment_id'') PNone)"
    and a: "get_or kvs (str ''assessment_id'') PNone = PStr s"
    by (simp_all add: get_or_def)
  from body success show ?thesis
    unfolding do_POST_truthy_id [OF t] Let_def a
    by (auto simp: json_headers_def get_or_def str_def split: if_splits sum.splits)
qed


lemma sample_request_written:
  "written (do_POST sample_runtime (str ''2026-01-01 00:00:00 UTC'')
      (Inr (PDict [(str ''assessment_id'', PStr aid),
                   (str ''verdict'', PDict [(str ''explanation'', PStr (str ''E''))]),
                   (str ''gtm_shape'', PStr (str ''Shape-A''))]))) =
   (if aid = [] then [PDict [(str ''error'', PStr (str ''assessment_id is required''))]]
    else [PDict [(str ''success'', PBool True),
            (str ''pdfAttachmentData'', PDict
               [(str ''filename'', PStr (str ''WHT-Diagnostic-Report-'' @ take 8 aid @ str ''.pdf'')),
                (str ''content'', PStr (str ''JVBERi0=''))])]])"
  by (simp add: eval_defs)

text \<open>
  C6. Whenever the handler writes a success body for a request whose \<open>assessment_id\<close> is the
  string \<open>s\<close>, the file name in it is \<open>WHT-Diagnostic-Report-\<close>, the first 8 characters
  of \<open>s\<close>, and \<open>.pdf\<close>. For \<open>abcdefghijklmnop\<close> that is
  \<open>WHT-Diagnostic-Report-abcdefgh.pdf\<close>.
\<close>

theorem filename_first_8:
  assumes "map_of kvs (str ''assessment_id'') = Some (PStr s)"
    and "body \<in> set (written (do_POST rt now (Inr (PDict kvs))))"
    and "py_get body (str ''success'') PNone = Inr (PBool True)"
  shows "\<exists>content. body = PDict
           [(str ''success'', PBool True),
            (str ''pdfAttachmentData'', PDict
               [(str ''filename'',
                 PStr (str ''WHT-Diagnostic-Report-'' @ take 8 s @ str ''.pdf'')),
                (str ''content'', PStr content)])]"
  using assms by (rule success_body_shape)

theorem filename_first_8_witness:
  "PDict [(str ''success'', PBool True),
          (str ''pdfAttachmentData'', PDict
             [(str ''filename'', PStr (str ''WHT-Diagnostic-Report-abcdefgh.pdf'')),
              (str ''content'', PStr (str ''JVBERi0=''))])]
   \<in> set (written (do_POST sample_runtime (str ''2026-01-01 00:00:00 UTC'')
      (Inr (PDict [(str ''assessment_id'', PStr (str ''abcdefghijklmnop'')),
                   (str ''verdict'', PDict [(str ''explanation'', PStr (str ''E''))]),
                   (str ''gtm_shape'', PStr (str ''Shape-A''))]))))
   \<and> (\<exists>content. PDict [(str ''success'', PBool True),
          (str ''pdfAttachmentData'', PDict
             [(str ''filename'', PStr (str ''WHT-Diagnostic-Report-abcdefgh.pdf'')),
              (str ''content'', PStr (str ''JVBERi0=''))])]
        = PDict
           [(str ''success'', PBool True),
            (str ''pdfAttachmentData'', PDict
               [(str ''filename'',
                 PStr (str ''WHT-Diagnostic-Report-'' @ take 8 (str ''abcdefghijklmnop'') @ str ''.pdf'')),
                (str ''content'', PStr content)])])"
proof -
  have id: "map_of [(str ''assessment_id'', PStr (str ''abcdefghijklmnop'')),
                   (str ''verdict'', PDict [(str ''explanation'', PStr (str ''E''))]),
                   (str ''gtm_shape'', PStr (str ''Shape-A''))] (str ''assessment_id'')
            = Some (PStr (str ''abcdefghijklmnop''))"
    by simp
  have mem: "PDict [(str ''success'', PBool True),
          (str ''pdfAttachmentData'', PDict
             [(str ''filename'', PStr (str ''WHT-Diagnostic-Report-abcdefgh.pdf'')),
              (str ''content'', PStr (str ''JVBERi0=''))])]
   \<in> set (written (do_POST sample_runtime (str ''2026-01-01 00:00:00 UTC'')
      (Inr (PDict [(str ''assessment_id'', PStr (str ''abcdefghijklmnop'')),
                   (str ''verdict'', PDict [(str ''explanation'', PStr (str ''E''))]),
                   (str ''gtm_shape'', PStr (str ''Shape-A''))]))))"
    unfolding sample_request_written by (simp add: str_def)
  have ok: "py_get (PDict [(str ''success'', PBool True),
          (str ''pdfAttachmentData'', PDict
             [(str ''filename'', PStr (str ''WHT-Diagnostic-Report-abcdefgh.pdf'')),
              (str ''content'', PStr (str ''JVBERi0=''))])]) (str ''success'') PNone
            = Inr (PBool True)"
    by (simp add: get_or_def)
  from filename_first_8 [OF id mem ok] mem show ?thesis by blast
qed



section \<open>Facts about the sections of the report\<close>

lemma upper_ascii_examples:
  "upper rt (str ''low'') = str ''LOW''"
  "upper rt (str ''Low'') = str ''LOW''"
  "upper rt (str ''LOW'') = str ''LOW''"
  "upper rt (str ''high'') = str ''HIGH''"
  "upper rt (str ''CRITICAL'') = str ''CRITICAL''"
  "upper rt (str ''UNKNOWN'') = str ''UNKNOWN''"
  "upper rt (str ''unknown'') = str ''UNKNOWN''"
  by (simp_all add: upper_def upper_cp_def str_def)

lemma risk_colors_lookup:
  "(case map_of risk_colors key of Some c \<Rightarrow> c | None \<Rightarrow> Black) = severity key"
  by (simp add: risk_colors_def severity_def)

lemma verdict_table_str:
  "verdict_table rt (PStr s) = Inr (Table
         [[PStr (str ''Misery Risk: '' @ upper rt s)],
          [PStr (str ''Expected mismatch between GTM requirements and founder energy profile.'')]]
         [Inch 6]
         [BACKGROUND (0, 0) (-1, -1) (HexColor ''#f9fafb''),
          BOX (0, 0) (-1, -1) 2 (severity (upper rt s)),
          FONTNAME (0, 0) (0, 0) ''Helvetica-Bold'',
          FONTSIZE (0, 0) (0, 0) 14,
          FONTSIZE (0, 1) (0, 1) 10,
          TEXTCOLOR (0, 0) (0, 0) (severity (upper rt s)),
          ALIGN (0, 0) (-1, -1) ''CENTER'',
          TOPPADDING (0, 0) (-1, -1) 12,
          BOTTOMPADDING (0, 0) (-1, -1) 12])"
  by (simp add: verdict_table_def risk_color_def risk_colors_lookup)

lemma bind_Inr_iff: "bind m f = Inr y \<longleftrightarrow> (\<exists>x. m = Inr x \<and> f x = Inr y)"
  by (cases m) simp_all

lemma new_paragraph_Inr_iff:
  "new_paragraph rt t st = Inr p \<longleftrightarrow> para_error rt t = None \<and> p = Paragraph t st"
  by (auto simp: new_paragraph_def split: option.splits)

lemma elements_parts:
  assumes "elements rt a ts v g fp mf ttr rl = Inr els"
  obtains vt regret gtm founder mismatch basis where
    "verdict_table rt rl = Inr vt" and "regret_elements rt ttr = Inr regret"
    and "gtm_elements rt g v = Inr gtm"
    and "founder_elements rt fp = Inr founder" and "mismatch_elements rt mf = Inr mismatch"
    and "basis_elements rt v = Inr basis"
    and "els = header_elements
            @ [metadata_table a ts, Spacer (Pt 1) (Inch (15 / 100)),
               para disclaimer_text body_style, Spacer (Pt 1) (Inch (25 / 100)),
               para (str ''VERDICT'') heading_style,
               vt, Spacer (Pt 1) (Inch (2 / 10))]
            @ regret
            @ gtm @ founder @ mismatch @ basis
            @ closing_elements"
  using assms unfolding elements_def bind_def by (auto split: sum.splits)

lemma regret_elements_Inr_iff:
  "regret_elements rt ttr = Inr r \<longleftrightarrow>
     para_error rt (PStr (str ''Time-to-Regret: '' @ py_str rt ttr)) = None
     \<and> r = [Paragraph (PStr (str ''Time-to-Regret: '' @ py_str rt ttr)) heading_style,
             para regret_text body_style,
             Spacer (Pt 1) (Inch (2 / 10))]"
  by (auto simp: regret_elements_def bind_Inr_iff new_paragraph_Inr_iff)

lemma bullets_Inr_iff:
  "bullets rt items = Inr ps \<longleftrightarrow>
     (\<forall>x \<in> set items. para_error rt (PStr ([8226, 32] @ py_str rt x)) = None)
     \<and> ps = plain_bullets rt items"
proof (induction items arbitrary: ps)
  case Nil
  show ?case by (auto simp: plain_bullets_def)
next
  case (Cons x xs)
  show ?case
    by (auto simp: bind_Inr_iff new_paragraph_Inr_iff Cons.IH plain_bullets_def)
qed

lemma flag_lines_Inr_iff:
  "flag_lines rt fs = Inr ls \<longleftrightarrow>
     (\<forall>f \<in> set fs. para_error rt (PStr ([10007, 32] @ py_str rt f)) = None)
     \<and> ls = plain_flag_lines rt fs"
proof (induction fs arbitrary: ls)
  case Nil
  show ?case by (auto simp: plain_flag_lines_def)
next
  case (Cons f fs)
  show ?case
    by (auto simp: bind_Inr_iff new_paragraph_Inr_iff Cons.IH plain_flag_lines_def)
qed

lemma founder_elements_empty:
  "founder_elements rt (PDict []) =
     Inr [para (str ''FOUNDER ENERGY PROFILE'') heading_style, Spacer (Pt 1) (Inch (2 / 10))]"
  by (simp add: founder_elements_def get_or_def)

lemma mismatch_elements_Inr_iff:
  "mismatch_elements rt (PList flags) = Inr sec \<longleftrightarrow>
     (\<forall>f \<in> set flags. para_error rt (PStr ([10007, 32] @ py_str rt f)) = None)
     \<and> sec = para (str ''MISMATCH FLAGS'') heading_style
          # (if flags = [] then [para (str ''No critical mismatches detected.'') body_style]
             else plain_flag_lines rt flags)
          @ [Spacer (Pt 1) (Inch (2 / 10))]"
  by (auto simp: mismatch_elements_def bind_Inr_iff flag_lines_Inr_iff)

lemma basis_elements_Inr_iff:
  "basis_elements rt (PDict v) = Inr b \<longleftrightarrow>
     para_error rt (get_or v (str ''explanation'')
                      (PStr (str ''Classification basis not available.''))) = None
     \<and> b = [para (str ''CLASSIFICATION BASIS'') heading_style,
             Paragraph (get_or v (str ''explanation'')
                          (PStr (str ''Classification basis not available.''))) body_style,
             Spacer (Pt 1) (Inch (2 / 10))]"
  by (auto simp: basis_elements_def bind_Inr_iff new_paragraph_Inr_iff)

lemma pressure_flags_value:
  assumes "map_of v (str ''pressure_flags'') = None
           \<or> (\<exists>xs. map_of v (str ''pressure_flags'') = Some (PList xs))"
  shows "get_or v (str ''pressure_flags'') (PList []) = PList (pressure_items v)"
  using assms by (auto simp: get_or_def pressure_items_def)

lemma gtm_elements_Inr_iff:
  assumes "map_of v (str ''pressure_flags'') = None
           \<or> (\<exists>xs. map_of v (str ''pressure_flags'') = Some (PList xs))"
  shows "gtm_elements rt g (PDict v) = Inr gtm \<longleftrightarrow>
     para_error rt (PStr (str ''<b>'' @ py_str rt g @ str ''</b>'')) = None
     \<and> para_error rt (get_or v (str ''gtm_description'')
                        (PStr (str ''Classification description not available.''))) = None
     \<and> (\<forall>x \<in> set (pressure_items v). para_error rt (PStr ([8226, 32] @ py_str rt x)) = None)
     \<and> gtm = [para (str ''PRIMARY GTM SHAPE'') heading_style,
               Paragraph (PStr (str ''<b>'' @ py_str rt g @ str ''</b>'')) body_style,
               Paragraph (get_or v (str ''gtm_description'')
                            (PStr (str ''Classification description not available.''))) body_style]
              @ (if pressure_items v = [] then []
                 else [Spacer (Pt 1) (Inch (1 / 10)),
                       para (str ''<b>Active Pressure Flags:</b>'') body_style]
                      @ plain_bullets rt (pressure_items v))
              @ [Spacer (Pt 1) (Inch (2 / 10))]"
  unfolding gtm_elements_def
  by (auto simp: bind_Inr_iff new_paragraph_Inr_iff pressure_flags_value [OF assms]
        bullets_Inr_iff)

lemma plain_flag_lines_Cons:
  "plain_flag_lines rt (f # fs) =
     para ([10007, 32] @ py_str rt f) body_style # Spacer (Pt 1) (Inch (5 / 100))
     # plain_flag_lines rt fs"
  by (simp add: plain_flag_lines_def para_def)

lemma plain_flag_lines_Nil: "plain_flag_lines rt [] = []"
  by (simp add: plain_flag_lines_def)

lemma plain_flag_lines_length: "length (plain_flag_lines rt fs) = 2 * length fs"
  by (induction fs) (simp_all add: plain_flag_lines_Cons plain_flag_lines_Nil)

lemma plain_flag_lines_nth:
  "i < length fs \<Longrightarrow>
     plain_flag_lines rt fs ! (2 * i) = para ([10007, 32] @ py_str rt (fs ! i)) body_style
     \<and> plain_flag_lines rt fs ! (2 * i + 1) = Spacer (Pt 1) (Inch (5 / 100))"
proof (induction fs arbitrary: i)
  case Nil
  then show ?case by simp
next
  case (Cons f fs)
  show ?case
  proof (cases i)
    case 0
    then show ?thesis by (simp add: plain_flag_lines_Cons)
  next
    case (Suc j)
    with Cons.prems have "j < length fs" by simp
    from Cons.IH [OF this] Suc show ?thesis by (simp add: plain_flag_lines_Cons)
  qed
qed

lemma plain_flag_lines_texts:
  "paragraph_texts (plain_flag_lines rt fs) = map (\<lambda>f. PStr ([10007, 32] @ py_str rt f)) fs"
  by (induction fs) (simp_all add: plain_flag_lines_Cons plain_flag_lines_Nil para_def)

lemma elements_Inr_iff:
  assumes "map_of v (str ''pressure_flags'') = None
           \<or> (\<exists>xs. map_of v (str ''pressure_flags'') = Some (PList xs))"
  shows "elements rt a ts (PDict v) g (PDict []) (PList flags) ttr (PStr s) = Inr els \<longleftrightarrow>
     para_error rt (PStr (str ''Time-to-Regret: '' @ py_str rt ttr)) = None
     \<and> para_error rt (PStr (str ''<b>'' @ py_str rt g @ str ''</b>'')) = None
     \<and> para_error rt (get_or v (str ''gtm_description'')
                        (PStr (str ''Classification description not available.''))) = None
     \<and> (\<forall>x \<in> set (pressure_items v). para_error rt (PStr ([8226, 32] @ py_str rt x)) = None)
     \<and> (\<forall>f \<in> set flags. para_error rt (PStr ([10007, 32] @ py_str rt f)) = None)
     \<and> para_error rt (get_or v (str ''explanation'')
                        (PStr (str ''Classification basis not available.''))) = None
     \<and> els = header_elements
          @ [metadata_table a ts, Spacer (Pt 1) (Inch (15 / 100)),
             para disclaimer_text body_style, Spacer (Pt 1) (Inch (25 / 100)),
             para (str ''VERDICT'') heading_style,
             Table
               [[PStr (str ''Misery Risk: '' @ upper rt s)],
                [PStr (str ''Expected mismatch between GTM requirements and founder energy profile.'')]]
               [Inch 6]
               [BACKGROUND (0, 0) (-1, -1) (HexColor ''#f9fafb''),
                BOX (0, 0) (-1, -1) 2 (severity (upper rt s)),
                FONTNAME (0, 0) (0, 0) ''Helvetica-Bold'',
                FONTSIZE (0, 0) (0, 0) 14,
                FONTSIZE (0, 1) (0, 1) 10,
                TEXTCOLOR (0, 0) (0, 0) (severity (upper rt s)),
                ALIGN (0, 0) (-1, -1) ''CENTER'',
                TOPPADDING (0, 0) (-1, -1) 12,
                BOTTOMPADDING (0, 0) (-1, -1) 12],
             Spacer (Pt 1) (Inch (2 / 10)),
             Paragraph (PStr (str ''Time-to-Regret: '' @ py_str rt ttr)) heading_style,
             para regret_text body_style,
             Spacer (Pt 1) (Inch (2 / 10)),
             para (str ''PRIMARY GTM SHAPE'') heading_style,
             Paragraph (PStr (str ''<b>'' @ py_str rt g @ str ''</b>'')) body_style,
             Paragraph (get_or v (str ''gtm_description'')
                          (PStr (str ''Classification description not available.''))) body_style]
          @ (if pressure_items v = [] then []
             else [Spacer (Pt 1) (Inch (1 / 10)),
                   para (str ''<b>Active Pressure Flags:</b>'') body_style]
                  @ plain_bullets rt (pressure_items v))
          @ [Spacer (Pt 1) (Inch (2 / 10)),
             para (str ''FOUNDER ENERGY PROFILE'') heading_style,
             Spacer (Pt 1) (Inch (2 / 10)),
             para (str ''MISMATCH FLAGS'') heading_style]
          @ (if flags = [] then [para (str ''No critical mismatches detected.'') body_style]
             else plain_flag_lines rt flags)
          @ [Spacer (Pt 1) (Inch (2 / 10)),
             para (str ''CLASSIFICATION BASIS'') heading_style,
             Paragraph (get_or v (str ''explanation'')
                          (PStr (str ''Classification basis not available.''))) body_style,
             Spacer (Pt 1) (Inch (2 / 10))]
          @ closing_elements"
  unfolding elements_def
  by (simp add: bind_Inr_iff verdict_table_str regret_elements_Inr_iff
        gtm_elements_Inr_iff [OF assms] founder_elements_empty mismatch_elements_Inr_iff
        basis_elements_Inr_iff)
     blast

lemma sample_elements_exist:
  assumes "\<forall>f \<in> set fs. even (length (filter (\<lambda>c. c = 60) f))"
  shows "\<exists>els. elements sample_runtime a ts (PDict [(str ''explanation'', PStr (str ''E''))])
           (PStr (str ''Shape-A'')) (PDict []) (PList (map PStr fs))
           (PStr (str ''Unknown'')) (PStr s) = Inr els"
proof -
  have pf: "map_of [(str ''explanation'', PStr (str ''E''))] (str ''pressure_flags'') = None"
    by (simp add: str_def)
  have pi: "pressure_items [(str ''explanation'', PStr (str ''E''))] = []"
    by (simp add: pressure_items_def pf)
  have acc: "para_error sample_runtime (PStr (str ''Time-to-Regret: ''
                @ py_str sample_runtime (PStr (str ''Unknown'')))) = None"
    "para_error sample_runtime (PStr (str ''<b>'' @ py_str sample_runtime (PStr (str ''Shape-A''))
                @ str ''</b>'')) = None"
    "para_error sample_runtime (get_or [(str ''explanation'', PStr (str ''E''))]
        (str ''gtm_description'') (PStr (str ''Classification description not available.''))) = None"
    "para_error sample_runtime (get_or [(str ''explanation'', PStr (str ''E''))]
        (str ''explanation'') (PStr (str ''Classification basis not available.''))) = None"
    by (simp_all add: sample_runtime_def sample_para_error_def get_or_def str_def)
  have fl: "\<forall>f \<in> set (map PStr fs).
              para_error sample_runtime (PStr ([10007, 32] @ py_str sample_runtime f)) = None"
    using assms by (simp add: sample_runtime_def sample_para_error_def)
  show ?thesis
    unfolding elements_Inr_iff [OF disjI1, OF pf]
    using acc fl by (simp add: pi)
qed

section \<open>The verdict box\<close>

text \<open>
  C1. For every string \<open>risk_level\<close> the verdict table is built without error and its
  outline has the colour the table gives for the upper-cased level: green for \<open>LOW\<close>,
  amber for \<open>MODERATE\<close>, red for \<open>HIGH\<close>, dark red for \<open>SEVERE\<close>, black for every
  other string. The table is an element of the composed report, and a request without
  \<open>risk_level\<close> gets the default \<open>UNKNOWN\<close>, hence black.
\<close>

theorem severity_color:
  "(\<exists>t. verdict_table rt (PStr s) = Inr t
        \<and> box_colors t =
            [if upper rt s = str ''LOW'' then HexColor ''#10b981''
             else if upper rt s = str ''MODERATE'' then HexColor ''#f59e0b''
             else if upper rt s = str ''HIGH'' then HexColor ''#ef4444''
             else if upper rt s = str ''SEVERE'' then HexColor ''#991b1b''
             else Black])
   \<and> (\<forall>els. elements rt a ts v g fp mf ttr (PStr s) = Inr els
          \<longrightarrow> (\<exists>t \<in> set els. verdict_table rt (PStr s) = Inr t))
   \<and> (map_of kvs (str ''risk_level'') = None
        \<longrightarrow> (\<exists>t. verdict_table rt (get_or kvs (str ''risk_level'') (PStr (str ''UNKNOWN''))) = Inr t
                \<and> box_colors t = [Black]))"
proof (intro conjI allI impI)
  show "\<exists>t. verdict_table rt (PStr s) = Inr t
        \<and> box_colors t =
            [if upper rt s = str ''LOW'' then HexColor ''#10b981''
             else if upper rt s = str ''MODERATE'' then HexColor ''#f59e0b''
             else if upper rt s = str ''HIGH'' then HexColor ''#ef4444''
             else if upper rt s = str ''SEVERE'' then HexColor ''#991b1b''
             else Black]"
    by (simp add: verdict_table_str severity_def)
next
  fix els assume "elements rt a ts v g fp mf ttr (PStr s) = Inr els"
  then obtain vt regret gtm founder mismatch basis where
    vt: "verdict_table rt (PStr s) = Inr vt"
    and els: "els = header_elements
            @ [metadata_table a ts, Spacer (Pt 1) (Inch (15 / 100)),
               para disclaimer_text body_style, Spacer (Pt 1) (Inch (25 / 100)),
               para (str ''VERDICT'') heading_style,
               vt, Spacer (Pt 1) (Inch (2 / 10))]
            @ regret
            @ gtm @ founder @ mismatch @ basis
            @ closing_elements"
    by (rule elements_parts)
  from els have "vt \<in> set els" by simp
  with vt show "\<exists>t \<in> set els. verdict_table rt (PStr s) = Inr t"
    by blast
next
  assume "map_of kvs (str ''risk_level'') = None"
  then have "get_or kvs (str ''risk_level'') (PStr (str ''UNKNOWN'')) = PStr (str ''UNKNOWN'')"
    by (simp add: get_or_def)
  then show "\<exists>t. verdict_table rt (get_or kvs (str ''risk_level'') (PStr (str ''UNKNOWN''))) = Inr t
                \<and> box_colors t = [Black]"
    by (simp add: verdict_table_str upper_ascii_examples) (simp add: severity_def str_def)
qed

theorem severity_color_witness:
  "(\<exists>t. verdict_table sample_runtime (PStr (str ''low'')) = Inr t
        \<and> box_colors t = [HexColor ''#10b981''])
   \<and> (\<exists>t. verdict_table sample_runtime (PStr (str ''Low'')) = Inr t
        \<and> box_colors t = [HexColor ''#10b981''])
   \<and> (\<exists>t. verdict_table sample_runtime (PStr (str ''LOW'')) = Inr t
        \<and> box_colors t = [HexColor ''#10b981''])
   \<and> (\<exists>t. verdict_table sample_runtime (PStr (str ''CRITICAL'')) = Inr t
        \<and> box_colors t = [Black])
   \<and> (\<exists>els. elements sample_runtime (PStr (str ''X1'')) (PStr (str ''2026-01-01 00:00:00 UTC''))
               (PDict [(str ''explanation'', PStr (str ''E''))]) (PStr (str ''Shape-A''))
               (PDict []) (PList []) (PStr (str ''Unknown'')) (PStr (str ''low'')) = Inr els
        \<and> (\<exists>t \<in> set els. verdict_table sample_runtime (PStr (str ''low'')) = Inr t))
   \<and> (\<exists>t. verdict_table sample_runtime (get_or [] (str ''risk_level'') (PStr (str ''UNKNOWN''))) = Inr t
        \<and> box_colors t = [Black])"
proof -
  have lit: "str ''LOW'' \<noteq> str ''CRITICAL''" "str ''MODERATE'' \<noteq> str ''CRITICAL''"
    "str ''HIGH'' \<noteq> str ''CRITICAL''" "str ''SEVERE'' \<noteq> str ''CRITICAL''"
    by (simp_all add: str_def)
  have none: "map_of [] (str ''risk_level'') = (None :: pyval option)"
    by simp
  have "\<exists>els. elements sample_runtime (PStr (str ''X1'')) (PStr (str ''2026-01-01 00:00:00 UTC''))
               (PDict [(str ''explanation'', PStr (str ''E''))]) (PStr (str ''Shape-A''))
               (PDict []) (PList []) (PStr (str ''Unknown'')) (PStr (str ''low'')) = Inr els"
    using sample_elements_exist [where fs = "[]" and a = "PStr (str ''X1'')"
        and ts = "PStr (str ''2026-01-01 00:00:00 UTC'')" and s = "str ''low''"]
    by simp
  then obtain els where
    els: "elements sample_runtime (PStr (str ''X1'')) (PStr (str ''2026-01-01 00:00:00 UTC''))
               (PDict [(str ''explanation'', PStr (str ''E''))]) (PStr (str ''Shape-A''))
               (PDict []) (PList []) (PStr (str ''Unknown'')) (PStr (str ''low'')) = Inr els"
    by (elim exE)
  note low = severity_color [of sample_runtime "str ''low''" "PStr (str ''X1'')"
      "PStr (str ''2026-01-01 00:00:00 UTC'')" "PDict [(str ''explanation'', PStr (str ''E''))]"
      "PStr (str ''Shape-A'')" "PDict []" "PList []" "PStr (str ''Unknown'')" "[]"]
  from low have 1: "\<exists>t. verdict_table sample_runtime (PStr (str ''low'')) = Inr t
        \<and> box_colors t = [HexColor ''#10b981'']"
    by (simp add: upper_ascii_examples)
  from severity_color [of sample_runtime "str ''Low''"]
  have 2: "\<exists>t. verdict_table sample_runtime (PStr (str ''Low'')) = Inr t
        \<and> box_colors t = [HexColor ''#10b981'']"
    by (simp add: upper_ascii_examples)
  from severity_color [of sample_runtime "str ''LOW''"]
  have 3: "\<exists>t. verdict_table sample_runtime (PStr (str ''LOW'')) = Inr t
        \<and> box_colors t = [HexColor ''#10b981'']"
    by (simp add: upper_ascii_examples)
  from severity_color [of sample_runtime "str ''CRITICAL''"]
  have 4: "\<exists>t. verdict_table sample_runtime (PStr (str ''CRITICAL'')) = Inr t
        \<and> box_colors t = [Black]"
    by (simp add: upper_ascii_examples lit [symmetric])
  from low els have 5: "\<exists>t \<in> set els. verdict_table sample_runtime (PStr (str ''low'')) = Inr t"
    by blast
  from low none have 6: "\<exists>t. verdict_table sample_runtime
          (get_or [] (str ''risk_level'') (PStr (str ''UNKNOWN''))) = Inr t
        \<and> box_colors t = [Black]"
    by blast
  from 1 2 3 4 5 6 els show ?thesis by blast
qed

text \<open>
  C9. For every string \<open>risk_level\<close> the first row of the verdict table is
  \<open>Misery Risk: \<close> followed by the upper-cased level, whether or not the level is one
  of the four keys, and the text of that cell has the severity colour, the same as the
  outline.
\<close>

theorem risk_label:
  "\<exists>t. verdict_table rt (PStr s) = Inr t
     \<and> table_rows t =
         [[PStr (str ''Misery Risk: '' @ upper rt s)],
          [PStr (str ''Expected mismatch between GTM requirements and founder energy profile.'')]]
     \<and> first_cell_text_colors t =
         [case map_of risk_colors (upper rt s) of Some c \<Rightarrow> c | None \<Rightarrow> Black]
     \<and> first_cell_text_colors t = box_colors t"
  by (simp add: verdict_table_str risk_colors_lookup)

theorem risk_label_witness:
  "\<exists>t. verdict_table sample_runtime (PStr (str ''unknown'')) = Inr t
     \<and> table_rows t =
         [[PStr (str ''Misery Risk: UNKNOWN'')],
          [PStr (str ''Expected mismatch between GTM requirements and founder energy profile.'')]]
     \<and> first_cell_text_colors t = [Black]
     \<and> box_colors t = [Black]"
proof -
  have k: "map_of risk_colors (str ''UNKNOWN'') = None"
    by (simp add: risk_colors_def str_def)
  from risk_label [of sample_runtime "str ''unknown''"] show ?thesis
    unfolding upper_ascii_examples k by (auto simp: str_def)
qed

section \<open>The sections of the report\<close>

text \<open>
  C2. For a list of strings \<open>fs\<close> the MISMATCH FLAGS section is composed exactly when the
  library accepts the text of every line, and the composed section is the heading, the
  lines and a spacer. For the empty list the lines are the single paragraph
  \<open>No critical mismatches detected.\<close>; otherwise there are two elements per flag, in
  input order: the paragraph with the ballot x, a space and the flag, and a spacer of
  0.05 inch. In a composed report the section is a contiguous part.
\<close>

theorem mismatch_section:
  "((\<exists>sec. mismatch_elements rt (PList (map PStr fs)) = Inr sec)
      \<longleftrightarrow> (\<forall>f \<in> set fs. para_error rt (PStr ([10007, 32] @ f)) = None))
   \<and> (\<forall>sec. mismatch_elements rt (PList (map PStr fs)) = Inr sec \<longrightarrow>
        (\<exists>lines.
           sec = para (str ''MISMATCH FLAGS'') heading_style # lines
                 @ [Spacer (Pt 1) (Inch (2 / 10))]
           \<and> (fs = [] \<longrightarrow> lines = [para (str ''No critical mismatches detected.'') body_style])
           \<and> (fs \<noteq> [] \<longrightarrow>
                length lines = 2 * length fs
                \<and> (\<forall>i < length fs.
                      lines ! (2 * i) = para ([10007, 32] @ fs ! i) body_style
                      \<and> lines ! (2 * i + 1) = Spacer (Pt 1) (Inch (5 / 100)))
                \<and> paragraph_texts lines = map (\<lambda>f. PStr ([10007, 32] @ f)) fs)))
   \<and> (\<forall>els. elements rt a ts v g fp (PList (map PStr fs)) ttr rl = Inr els \<longrightarrow>
        (\<exists>sec pre post. mismatch_elements rt (PList (map PStr fs)) = Inr sec
           \<and> els = pre @ sec @ post))"
proof (intro conjI allI impI)
  show "(\<exists>sec. mismatch_elements rt (PList (map PStr fs)) = Inr sec)
      \<longleftrightarrow> (\<forall>f \<in> set fs. para_error rt (PStr ([10007, 32] @ f)) = None)"
    by (simp add: mismatch_elements_Inr_iff)
next
  fix sec
  assume "mismatch_elements rt (PList (map PStr fs)) = Inr sec"
  then have sec: "sec = para (str ''MISMATCH FLAGS'') heading_style
          # (if fs = [] then [para (str ''No critical mismatches detected.'') body_style]
             else plain_flag_lines rt (map PStr fs))
          @ [Spacer (Pt 1) (Inch (2 / 10))]"
    by (simp add: mismatch_elements_Inr_iff)
  define lines where "lines =
    (if fs = [] then [para (str ''No critical mismatches detected.'') body_style]
     else plain_flag_lines rt (map PStr fs))"
  have e: "lines = [para (str ''No critical mismatches detected.'') body_style]" if "fs = []"
    using that by (simp add: lines_def)
  have n: "length lines = 2 * length fs
          \<and> (\<forall>i < length fs.
                lines ! (2 * i) = para ([10007, 32] @ fs ! i) body_style
                \<and> lines ! (2 * i + 1) = Spacer (Pt 1) (Inch (5 / 100)))
          \<and> paragraph_texts lines = map (\<lambda>f. PStr ([10007, 32] @ f)) fs" if "fs \<noteq> []"
  proof -
    from that have l: "lines = plain_flag_lines rt (map PStr fs)" by (simp add: lines_def)
    have "\<forall>i < length fs.
                lines ! (2 * i) = para ([10007, 32] @ fs ! i) body_style
                \<and> lines ! (2 * i + 1) = Spacer (Pt 1) (Inch (5 / 100))"
    proof (intro allI impI)
      fix i assume i: "i < length fs"
      then have "i < length (map PStr fs)" by simp
      from plain_flag_lines_nth [OF this, of rt] i
      show "lines ! (2 * i) = para ([10007, 32] @ fs ! i) body_style
                \<and> lines ! (2 * i + 1) = Spacer (Pt 1) (Inch (5 / 100))"
        by (simp add: l)
    qed
    then show ?thesis
      by (simp add: l plain_flag_lines_length plain_flag_lines_texts comp_def)
  qed
  have s: "sec = para (str ''MISMATCH FLAGS'') heading_style # lines
                 @ [Spacer (Pt 1) (Inch (2 / 10))]"
    by (simp add: sec lines_def)
  show "\<exists>lines.
           sec = para (str ''MISMATCH FLAGS'') heading_style # lines
                 @ [Spacer (Pt 1) (Inch (2 / 10))]
           \<and> (fs = [] \<longrightarrow> lines = [para (str ''No critical mismatches detected.'') body_style])
           \<and> (fs \<noteq> [] \<longrightarrow>
                length lines = 2 * length fs
                \<and> (\<forall>i < length fs.
                      lines ! (2 * i) = para ([10007, 32] @ fs ! i) body_style
                      \<and> lines ! (2 * i + 1) = Spacer (Pt 1) (Inch (5 / 100)))
                \<and> paragraph_texts lines = map (\<lambda>f. PStr ([10007, 32] @ f)) fs)"
    by (rule exI [of _ lines], intro conjI impI) (use s e n in \<open>simp_all\<close>)
next
  fix els
  assume "elements rt a ts v g fp (PList (map PStr fs)) ttr rl = Inr els"
  then obtain vt regret gtm founder mismatch basis where
    mm: "mismatch_elements rt (PList (map PStr fs)) = Inr mismatch"
    and els: "els = header_elements
            @ [metadata_table a ts, Spacer (Pt 1) (Inch (15 / 100)),
               para disclaimer_text body_style, Spacer (Pt 1) (Inch (25 / 100)),
               para (str ''VERDICT'') heading_style,
               vt, Spacer (Pt 1) (Inch (2 / 10))]
            @ regret
            @ gtm @ founder @ mismatch @ basis
            @ closing_elements"
    by (rule elements_parts)
  define front where "front = header_elements
            @ [metadata_table a ts, Spacer (Pt 1) (Inch (15 / 100)),
               para disclaimer_text body_style, Spacer (Pt 1) (Inch (25 / 100)),
               para (str ''VERDICT'') heading_style,
               vt, Spacer (Pt 1) (Inch (2 / 10))]
            @ regret
            @ gtm @ founder"
  have "els = front @ mismatch @ (basis @ closing_elements)"
    unfolding els front_def by simp
  with mm show "\<exists>sec pre post. mismatch_elements rt (PList (map PStr fs)) = Inr sec
           \<and> els = pre @ sec @ post"
    by blast
qed

theorem mismatch_section_witness:
  "(\<exists>sec lines.
      mismatch_elements sample_runtime (PList [PStr (str ''F1''), PStr (str ''F2'')]) = Inr sec
      \<and> sec = para (str ''MISMATCH FLAGS'') heading_style # lines
              @ [Spacer (Pt 1) (Inch (2 / 10))]
      \<and> length lines = 4
      \<and> lines ! 0 = para ([10007, 32] @ str ''F1'') body_style
      \<and> lines ! 1 = Spacer (Pt 1) (Inch (5 / 100))
      \<and> lines ! 2 = para ([10007, 32] @ str ''F2'') body_style
      \<and> lines ! 3 = Spacer (Pt 1) (Inch (5 / 100))
      \<and> paragraph_texts lines = [PStr ([10007, 32] @ str ''F1''), PStr ([10007, 32] @ str ''F2'')]
      \<and> (\<exists>els pre post.
            elements sample_runtime (PStr (str ''X1'')) (PStr (str ''2026-01-01 00:00:00 UTC''))
               (PDict [(str ''explanation'', PStr (str ''E''))]) (PStr (str ''Shape-A''))
               (PDict []) (PList [PStr (str ''F1''), PStr (str ''F2'')]) (PStr (str ''Unknown''))
               (PStr (str ''high'')) = Inr els
            \<and> els = pre @ sec @ post))
   \<and> mismatch_elements sample_runtime (PList []) =
        Inr [para (str ''MISMATCH FLAGS'') heading_style,
             para (str ''No critical mismatches detected.'') body_style,
             Spacer (Pt 1) (Inch (2 / 10))]
   \<and> \<not> (\<exists>sec. mismatch_elements sample_runtime
                  (PList [PStr (str ''F1''), PStr (str ''<b>F2'')]) = Inr sec)"
proof -
  note ms = mismatch_section [of sample_runtime "[str ''F1'', str ''F2'']" "PStr (str ''X1'')"
      "PStr (str ''2026-01-01 00:00:00 UTC'')" "PDict [(str ''explanation'', PStr (str ''E''))]"
      "PStr (str ''Shape-A'')" "PDict []" "PStr (str ''Unknown'')" "PStr (str ''high'')"]
  have acc: "\<forall>f \<in> set [str ''F1'', str ''F2''].
               para_error sample_runtime (PStr ([10007, 32] @ f)) = None"
    by (simp add: sample_runtime_def sample_para_error_def str_def)
  from ms [THEN conjunct1] acc obtain sec where
    sec: "mismatch_elements sample_runtime (PList (map PStr [str ''F1'', str ''F2''])) = Inr sec"
    by blast
  from ms [THEN conjunct2, THEN conjunct1, rule_format, OF sec] obtain lines where
    s: "sec = para (str ''MISMATCH FLAGS'') heading_style # lines
              @ [Spacer (Pt 1) (Inch (2 / 10))]"
    and n: "[str ''F1'', str ''F2''] \<noteq> [] \<longrightarrow>
          length lines = 2 * length [str ''F1'', str ''F2'']
          \<and> (\<forall>i < length [str ''F1'', str ''F2''].
                lines ! (2 * i) = para ([10007, 32] @ [str ''F1'', str ''F2''] ! i) body_style
                \<and> lines ! (2 * i + 1) = Spacer (Pt 1) (Inch (5 / 100)))
          \<and> paragraph_texts lines = map (\<lambda>f. PStr ([10007, 32] @ f)) [str ''F1'', str ''F2'']"
    by blast
  from n have len: "length lines = 4"
    and nth: "\<forall>i < 2. lines ! (2 * i) = para ([10007, 32] @ [str ''F1'', str ''F2''] ! i) body_style
                \<and> lines ! (2 * i + 1) = Spacer (Pt 1) (Inch (5 / 100))"
    and ptexts: "paragraph_texts lines = [PStr ([10007, 32] @ str ''F1''), PStr ([10007, 32] @ str ''F2'')]"
    by simp_all
  from nth [rule_format, of 0] nth [rule_format, of 1]
  have l0: "lines ! 0 = para ([10007, 32] @ str ''F1'') body_style"
    and l1: "lines ! 1 = Spacer (Pt 1) (Inch (5 / 100))"
    and l2: "lines ! 2 = para ([10007, 32] @ str ''F2'') body_style"
    and l3: "lines ! 3 = Spacer (Pt 1) (Inch (5 / 100))"
    by simp_all
  have "\<exists>els. elements sample_runtime (PStr (str ''X1'')) (PStr (str ''2026-01-01 00:00:00 UTC''))
               (PDict [(str ''explanation'', PStr (str ''E''))]) (PStr (str ''Shape-A''))
               (PDict []) (PList (map PStr [str ''F1'', str ''F2''])) (PStr (str ''Unknown''))
               (PStr (str ''high'')) = Inr els"
    by (rule sample_elements_exist) (simp add: str_def)
  then obtain els where
    els: "elements sample_runtime (PStr (str ''X1'')) (PStr (str ''2026-01-01 00:00:00 UTC''))
               (PDict [(str ''explanation'', PStr (str ''E''))]) (PStr (str ''Shape-A''))
               (PDict []) (PList (map PStr [str ''F1'', str ''F2''])) (PStr (str ''Unknown''))
               (PStr (str ''high'')) = Inr els"
    by (elim exE)
  from ms [THEN conjunct2, THEN conjunct2, rule_format, OF els] sec obtain pre post where
    "els = pre @ sec @ post"
    by auto
  with els have e: "\<exists>els pre post.
            elements sample_runtime (PStr (str ''X1'')) (PStr (str ''2026-01-01 00:00:00 UTC''))
               (PDict [(str ''explanation'', PStr (str ''E''))]) (PStr (str ''Shape-A''))
               (PDict []) (PList [PStr (str ''F1''), PStr (str ''F2'')]) (PStr (str ''Unknown''))
               (PStr (str ''high'')) = Inr els
            \<and> els = pre @ sec @ post"
    by auto
  from sec have sec': "mismatch_elements sample_runtime (PList [PStr (str ''F1''), PStr (str ''F2'')])
        = Inr sec"
    by simp
  have z0: "\<exists>sec. mismatch_elements sample_runtime (PList (map PStr [])) = Inr sec"
    using mismatch_section [of sample_runtime "[]", THEN conjunct1] by simp
  then obtain sec0 where sec0: "mismatch_elements sample_runtime (PList (map PStr [])) = Inr sec0"
    by (elim exE)
  from mismatch_section [of sample_runtime "[]", THEN conjunct2, THEN conjunct1, rule_format,
      OF sec0]
  have "sec0 = [para (str ''MISMATCH FLAGS'') heading_style,
             para (str ''No critical mismatches detected.'') body_style,
             Spacer (Pt 1) (Inch (2 / 10))]"
    by auto
  with sec0 have z: "mismatch_elements sample_runtime (PList []) =
        Inr [para (str ''MISMATCH FLAGS'') heading_style,
             para (str ''No critical mismatches detected.'') body_style,
             Spacer (Pt 1) (Inch (2 / 10))]"
    by simp
  have rej: "\<not> (\<forall>f \<in> set [str ''F1'', str ''<b>F2''].
               para_error sample_runtime (PStr ([10007, 32] @ f)) = None)"
    by (simp add: sample_runtime_def sample_para_error_def str_def)
  from mismatch_section [of sample_runtime "[str ''F1'', str ''<b>F2'']", THEN conjunct1] rej
  have r: "\<not> (\<exists>sec. mismatch_elements sample_runtime
                  (PList [PStr (str ''F1''), PStr (str ''<b>F2'')]) = Inr sec)"
    by simp
  from sec' s len l0 l1 l2 l3 ptexts e z r show ?thesis by blast
qed

text \<open>
  C7, as stated, fails: with an empty \<open>founder_profile\<close>, an empty \<open>mismatch_flags\<close> list
  and a \<open>verdict\<close> that has none of the three fields, the composer raises when the
  library rejects the markup of a paragraph built from the request, here the bold
  \<open>gtm_shape\<close> for the shape \<open><i>\<close>.
\<close>

theorem composer_total_counterexample:
  "elements sample_runtime (PStr (str ''X1'')) (PStr (str ''2026-01-01 00:00:00 UTC''))
     (PDict [(str ''note'', PStr (str ''n''))]) (PStr (str ''<i>''))
     (PDict []) (PList []) (PStr (str ''Unknown'')) (PStr (str ''high''))
   = Inl (Raised (str ''ValueError''))"
  by (simp add: elements_def verdict_table_str regret_elements_def gtm_elements_def
        new_paragraph_def sample_runtime_def sample_para_error_def str_def)

text \<open>
  C7, amended. With an empty \<open>founder_profile\<close>, an empty \<open>mismatch_flags\<close> list, a string
  \<open>risk_level\<close> and a \<open>verdict\<close> dict whose \<open>pressure_flags\<close> is absent (or a list): when
  the library accepts the text of every paragraph built from the request, the composer
  returns the complete report, in which an absent \<open>gtm_description\<close> or \<open>explanation\<close> is
  replaced by its placeholder, absent pressure flags, drivers and drains leave out their
  sub-sections, and the fallback line \<open>No critical mismatches detected.\<close> is present;
  when the library rejects one of those texts, the composer raises.
\<close>

theorem composer_total:
  assumes "map_of v (str ''pressure_flags'') = None
           \<or> (\<exists>xs. map_of v (str ''pressure_flags'') = Some (PList xs))"
  shows "(library_accepts rt v g ttr \<longrightarrow>
     (\<exists>els vt gd pfl ex.
        elements rt a ts (PDict v) g (PDict []) (PList []) ttr (PStr s) = Inr els
        \<and> verdict_table rt (PStr s) = Inr vt
        \<and> els = header_elements
             @ [metadata_table a ts, Spacer (Pt 1) (Inch (15 / 100)),
                para disclaimer_text body_style, Spacer (Pt 1) (Inch (25 / 100)),
                para (str ''VERDICT'') heading_style,
                vt, Spacer (Pt 1) (Inch (2 / 10)),
                Paragraph (PStr (str ''Time-to-Regret: '' @ py_str rt ttr)) heading_style,
                para regret_text body_style,
                Spacer (Pt 1) (Inch (2 / 10)),
                para (str ''PRIMARY GTM SHAPE'') heading_style,
                Paragraph (PStr (str ''<b>'' @ py_str rt g @ str ''</b>'')) body_style,
                Paragraph gd body_style]
             @ pfl
             @ [Spacer (Pt 1) (Inch (2 / 10)),
                para (str ''FOUNDER ENERGY PROFILE'') heading_style,
                Spacer (Pt 1) (Inch (2 / 10)),
                para (str ''MISMATCH FLAGS'') heading_style,
                para (str ''No critical mismatches detected.'') body_style,
                Spacer (Pt 1) (Inch (2 / 10)),
                para (str ''CLASSIFICATION BASIS'') heading_style,
                Paragraph ex body_style,
                Spacer (Pt 1) (Inch (2 / 10))]
             @ closing_elements
        \<and> para (str ''No critical mismatches detected.'') body_style \<in> set els
        \<and> (case map_of v (str ''gtm_description'') of
               None \<Rightarrow> gd = PStr (str ''Classification description not available.'')
             | Some d \<Rightarrow> gd = d)
        \<and> (case map_of v (str ''explanation'') of
               None \<Rightarrow> ex = PStr (str ''Classification basis not available.'')
             | Some d \<Rightarrow> ex = d)
        \<and> (map_of v (str ''pressure_flags'') = None \<longrightarrow> pfl = [])))
   \<and> (\<not> library_accepts rt v g ttr \<longrightarrow>
        (\<exists>e. elements rt a ts (PDict v) g (PDict []) (PList []) ttr (PStr s) = Inl e))"
proof (intro conjI impI)
  assume acc: "library_accepts rt v g ttr"
  define gd where "gd = get_or v (str ''gtm_description'')
                        (PStr (str ''Classification description not available.''))"
  define ex where "ex = get_or v (str ''explanation'')
                       (PStr (str ''Classification basis not available.''))"
  define pfl where "pfl = (if pressure_items v = [] then []
             else [Spacer (Pt 1) (Inch (1 / 10)),
                   para (str ''<b>Active Pressure Flags:</b>'') body_style]
                  @ plain_bullets rt (pressure_items v))"
  define vt where "vt = Table
               [[PStr (str ''Misery Risk: '' @ upper rt s)],
                [PStr (str ''Expected mismatch between GTM requirements and founder energy profile.'')]]
               [Inch 6]
               [BACKGROUND (0, 0) (-1, -1) (HexColor ''#f9fafb''),
                BOX (0, 0) (-1, -1) 2 (severity (upper rt s)),
                FONTNAME (0, 0) (0, 0) ''Helvetica-Bold'',
                FONTSIZE (0, 0) (0, 0) 14,
                FONTSIZE (0, 1) (0, 1) 10,
                TEXTCOLOR (0, 0) (0, 0) (severity (upper rt s)),
                ALIGN (0, 0) (-1, -1) ''CENTER'',
                TOPPADDING (0, 0) (-1, -1) 12,
                BOTTOMPADDING (0, 0) (-1, -1) 12]"
  define els where "els = header_elements
             @ [metadata_table a ts, Spacer (Pt 1) (Inch (15 / 100)),
                para disclaimer_text body_style, Spacer (Pt 1) (Inch (25 / 100)),
                para (str ''VERDICT'') heading_style,
                vt, Spacer (Pt 1) (Inch (2 / 10)),
                Paragraph (PStr (str ''Time-to-Regret: '' @ py_str rt ttr)) heading_style,
                para regret_text body_style,
                Spacer (Pt 1) (Inch (2 / 10)),
                para (str ''PRIMARY GTM SHAPE'') heading_style,
                Paragraph (PStr (str ''<b>'' @ py_str rt g @ str ''</b>'')) body_style,
                Paragraph gd body_style]
             @ pfl
             @ [Spacer (Pt 1) (Inch (2 / 10)),
                para (str ''FOUNDER ENERGY PROFILE'') heading_style,
                Spacer (Pt 1) (Inch (2 / 10)),
                para (str ''MISMATCH FLAGS'') heading_style,
                para (str ''No critical mismatches detected.'') body_style,
                Spacer (Pt 1) (Inch (2 / 10)),
                para (str ''CLASSIFICATION BASIS'') heading_style,
                Paragraph ex body_style,
                Spacer (Pt 1) (Inch (2 / 10))]
             @ closing_elements"
  have el: "elements rt a ts (PDict v) g (PDict []) (PList []) ttr (PStr s) = Inr els"
    unfolding elements_Inr_iff [OF assms]
    using acc by (simp add: library_accepts_def els_def vt_def gd_def ex_def pfl_def)
  have vt: "verdict_table rt (PStr s) = Inr vt"
    by (simp add: verdict_table_str vt_def)
  have fb: "para (str ''No critical mismatches detected.'') body_style \<in> set els"
    by (simp add: els_def)
  have gdc: "case map_of v (str ''gtm_description'') of
               None \<Rightarrow> gd = PStr (str ''Classification description not available.'')
             | Some d \<Rightarrow> gd = d"
    by (simp add: gd_def get_or_def split: option.splits)
  have exc: "case map_of v (str ''explanation'') of
               None \<Rightarrow> ex = PStr (str ''Classification basis not available.'')
             | Some d \<Rightarrow> ex = d"
    by (simp add: ex_def get_or_def split: option.splits)
  have pf: "map_of v (str ''pressure_flags'') = None \<longrightarrow> pfl = []"
    by (simp add: pfl_def pressure_items_def)
  show "\<exists>els vt gd pfl ex.
        elements rt a ts (PDict v) g (PDict []) (PList []) ttr (PStr s) = Inr els
        \<and> verdict_table rt (PStr s) = Inr vt
        \<and> els = header_elements
             @ [metadata_table a ts, Spacer (Pt 1) (Inch (15 / 100)),
                para disclaimer_text body_style, Spacer (Pt 1) (Inch (25 / 100)),
                para (str ''VERDICT'') heading_style,
                vt, Spacer (Pt 1) (Inch (2 / 10)),
                Paragraph (PStr (str ''Time-to-Regret: '' @ py_str rt ttr)) heading_style,
                para regret_text body_style,
                Spacer (Pt 1) (Inch (2 / 10)),
                para (str ''PRIMARY GTM SHAPE'') heading_style,
                Paragraph (PStr (str ''<b>'' @ py_str rt g @ str ''</b>'')) body_style,
                Paragraph gd body_style]
             @ pfl
             @ [Spacer (Pt 1) (Inch (2 / 10)),
                para (str ''FOUNDER ENERGY PROFILE'') heading_style,
                Spacer (Pt 1) (Inch (2 / 10)),
                para (str ''MISMATCH FLAGS'') heading_style,
                para (str ''No critical mismatches detected.'') body_style,
                Spacer (Pt 1) (Inch (2 / 10)),
                para (str ''CLASSIFICATION BASIS'') heading_style,
                Paragraph ex body_style,
                Spacer (Pt 1) (Inch (2 / 10))]
             @ closing_elements
        \<and> para (str ''No critical mismatches detected.'') body_style \<in> set els
        \<and> (case map_of v (str ''gtm_description'') of
               None \<Rightarrow> gd = PStr (str ''Classification description not available.'')
             | Some d \<Rightarrow> gd = d)
        \<and> (case map_of v (str ''explanation'') of
               None \<Rightarrow> ex = PStr (str ''Classification basis not available.'')
             | Some d \<Rightarrow> ex = d)
        \<and> (map_of v (str ''pressure_flags'') = None \<longrightarrow> pfl = [])"
    apply (rule exI [of _ els], rule exI [of _ vt], rule exI [of _ gd], rule exI [of _ pfl],
        rule exI [of _ ex])
    apply (intro conjI)
          apply (rule el)
         apply (rule vt)
        apply (rule els_def)
       apply (rule fb)
      apply (rule gdc)
     apply (rule exc)
    apply (rule pf)
    done
next
  assume rej: "\<not> library_accepts rt v g ttr"
  show "\<exists>e. elements rt a ts (PDict v) g (PDict []) (PList []) ttr (PStr s) = Inl e"
  proof (cases "elements rt a ts (PDict v) g (PDict []) (PList []) ttr (PStr s)")
    case (Inl e)
    then show ?thesis by blast
  next
    case (Inr els)
    then have "library_accepts rt v g ttr"
      unfolding elements_Inr_iff [OF assms] by (simp add: library_accepts_def)
    with rej show ?thesis by contradiction
  qed
qed

theorem composer_total_witness:
  "(\<exists>els. elements sample_runtime (PStr (str ''X1'')) (PStr (str ''2026-01-01 00:00:00 UTC''))
           (PDict [(str ''note'', PStr (str ''n''))]) (PStr (str ''Shape-A''))
           (PDict []) (PList []) (PStr (str ''Unknown'')) (PStr (str ''high'')) = Inr els
     \<and> para (str ''No critical mismatches detected.'') body_style \<in> set els
     \<and> Paragraph (PStr (str ''Classification description not available.'')) body_style \<in> set els
     \<and> Paragraph (PStr (str ''Classification basis not available.'')) body_style \<in> set els
     \<and> length els = 31)
   \<and> (\<exists>e. elements sample_runtime (PStr (str ''X1'')) (PStr (str ''2026-01-01 00:00:00 UTC''))
           (PDict [(str ''note'', PStr (str ''n''))]) (PStr (str ''<i>''))
           (PDict []) (PList []) (PStr (str ''Unknown'')) (PStr (str ''high'')) = Inl e)"
proof -
  have pf: "map_of [(str ''note'', PStr (str ''n''))] (str ''pressure_flags'') = None"
    and gd: "map_of [(str ''note'', PStr (str ''n''))] (str ''gtm_description'') = None"
    and ex: "map_of [(str ''note'', PStr (str ''n''))] (str ''explanation'') = None"
    by (simp_all add: str_def)
  have acc: "library_accepts sample_runtime [(str ''note'', PStr (str ''n''))]
               (PStr (str ''Shape-A'')) (PStr (str ''Unknown''))"
    by (simp add: library_accepts_def pressure_items_def pf get_or_def gd ex
          sample_runtime_def sample_para_error_def)
       (simp add: str_def)
  have rej: "\<not> library_accepts sample_runtime [(str ''note'', PStr (str ''n''))]
               (PStr (str ''<i>'')) (PStr (str ''Unknown''))"
    by (simp add: library_accepts_def sample_runtime_def sample_para_error_def)
       (simp add: str_def)
  note ok = composer_total [OF disjI1, OF pf, of sample_runtime "PStr (str ''Shape-A'')"
      "PStr (str ''Unknown'')" "PStr (str ''X1'')" "PStr (str ''2026-01-01 00:00:00 UTC'')"
      "str ''high''", THEN conjunct1, THEN mp, OF acc]
  note bad = composer_total [OF disjI1, OF pf, of sample_runtime "PStr (str ''<i>'')"
      "PStr (str ''Unknown'')" "PStr (str ''X1'')" "PStr (str ''2026-01-01 00:00:00 UTC'')"
      "str ''high''", THEN conjunct2, THEN mp, OF rej]
  from ok have 1: "\<exists>els. elements sample_runtime (PStr (str ''X1'')) (PStr (str ''2026-01-01 00:00:00 UTC''))
           (PDict [(str ''note'', PStr (str ''n''))]) (PStr (str ''Shape-A''))
           (PDict []) (PList []) (PStr (str ''Unknown'')) (PStr (str ''high'')) = Inr els
     \<and> para (str ''No critical mismatches detected.'') body_style \<in> set els
     \<and> Paragraph (PStr (str ''Classification description not available.'')) body_style \<in> set els
     \<and> Paragraph (PStr (str ''Classification basis not available.'')) body_style \<in> set els
     \<and> length els = 31"
    unfolding pf gd ex
    by (auto simp: header_elements_def closing_elements_def)
  from 1 bad show ?thesis by blast
qed

section \<open>The footer on every page\<close>


lemma footer_restores:
  "state (create_footer_drawer rt aid c d) = state c
   \<and> saved (create_footer_drawer rt aid c d) = saved c"
  by (simp add: create_footer_drawer_def saveState_def restoreState_def setStrokeColor_def
        setLineWidth_def setFont_def setFillColor_def line_def drawCentredString_def letter_def)







section \<open>Two runs with the same arguments\<close>













end
